theory Spec2Isabelle
  imports Complex_Main
begin

section \<open>Python string primitives\<close>

text \<open>
  A Python \<open>str\<close> is modelled as a \<open>string\<close>: a list of 8-bit characters, read as the
  code points U+0000 .. U+00FF.  The primitives below are the \<open>str\<close> methods the
  command parser and the command executor call, restricted to that range.  Text with a
  character above U+00FF is outside the model; there the classes of \<open>re\<close> are wider
  (ignoring case, \<open>[whqest]\<close> also matches U+017F, for which \<open>from_code\<close> finds no
  duration).
\<close>

definition isspace :: "char \<Rightarrow> bool" where
  \<comment> \<open>\<open>str.isspace\<close> for one character; also the class \<open>\s\<close> of \<open>re\<close>.\<close>
  "isspace c = (c \<in> set [CHR 0x09, CHR 0x0A, CHR 0x0B, CHR 0x0C, CHR 0x0D, CHR 0x1C,
      CHR 0x1D, CHR 0x1E, CHR 0x1F, CHR 0x20, CHR 0x85, CHR 0xA0])"

definition isdigit :: "char \<Rightarrow> bool" where
  \<comment> \<open>the class \<open>\d\<close> of \<open>re\<close>\<close>
  "isdigit c = (c \<in> set ''0123456789'')"

definition strip :: "string \<Rightarrow> string" where
  "strip s = rev (dropWhile isspace (rev (dropWhile isspace s)))"

definition rstrip_chars :: "string \<Rightarrow> string \<Rightarrow> string" where
  \<comment> \<open>\<open>s.rstrip(chars)\<close>\<close>
  "rstrip_chars chars s = rev (dropWhile (\<lambda>c. c \<in> set chars) (rev s))"

definition lower_char :: "char \<Rightarrow> char" where
  "lower_char c =
     (let n = (of_char c :: nat) in
      if (65 \<le> n \<and> n \<le> 90) \<or> (192 \<le> n \<and> n \<le> 222 \<and> n \<noteq> 215)
      then char_of (n + 32) else c)"

definition lower :: "string \<Rightarrow> string" where
  "lower s = map lower_char s"

definition upper_char :: "char \<Rightarrow> char" where
  \<comment> \<open>\<open>str.upper\<close> on the ASCII range; the parser applies it to matched pitches only.\<close>
  "upper_char c =
     (let n = (of_char c :: nat) in
      if 97 \<le> n \<and> n \<le> 122 then char_of (n - 32) else c)"

definition upper :: "string \<Rightarrow> string" where
  "upper s = map upper_char s"

definition startswith :: "string \<Rightarrow> string \<Rightarrow> bool" where
  "startswith s p = (take (length p) s = p)"

definition endswith :: "string \<Rightarrow> string \<Rightarrow> bool" where
  "endswith s p = (length p \<le> length s \<and> drop (length s - length p) s = p)"

fun split_on :: "char \<Rightarrow> string \<Rightarrow> string list" where
  \<comment> \<open>\<open>s.split(sep)\<close> for a separator of one character\<close>
  "split_on sep [] = [[]]"
| "split_on sep (c # cs) =
     (if c = sep then [] # split_on sep cs
      else (case split_on sep cs of
              [] \<Rightarrow> [[c]]
            | w # ws \<Rightarrow> (c # w) # ws))"

fun split_ws_from :: "string \<Rightarrow> string \<Rightarrow> string list" where
  "split_ws_from cur [] = (if cur = [] then [] else [cur])"
| "split_ws_from cur (c # cs) =
     (if isspace c then (if cur = [] then split_ws_from [] cs else cur # split_ws_from [] cs)
      else split_ws_from (cur @ [c]) cs)"

definition split_ws :: "string \<Rightarrow> string list" where
  \<comment> \<open>\<open>s.split()\<close>: the maximal runs of non-whitespace characters\<close>
  "split_ws s = split_ws_from [] s"

definition chomp :: "string \<Rightarrow> string" where
  \<comment> \<open>a pattern's final \<open>$\<close> also matches just before one trailing newline\<close>
  "chomp s = (if endswith s [CHR 0x0A] then butlast s else s)"


section \<open>Parsed elements\<close>

datatype Duration = WHOLE | HALF | QUARTER | EIGHTH | SIXTEENTH | THIRTYSECOND

definition Duration_value :: "Duration \<Rightarrow> string" where
  "Duration_value d =
     (case d of WHOLE \<Rightarrow> ''w'' | HALF \<Rightarrow> ''h'' | QUARTER \<Rightarrow> ''q''
      | EIGHTH \<Rightarrow> ''e'' | SIXTEENTH \<Rightarrow> ''s'' | THIRTYSECOND \<Rightarrow> ''t'')"

definition from_code :: "string \<Rightarrow> Duration option" where
  "from_code code =
     find (\<lambda>d. Duration_value d = rstrip_chars ''.'' (lower code))
       [WHOLE, HALF, QUARTER, EIGHTH, SIXTEENTH, THIRTYSECOND]"

record ParsedNote =
  pitch :: string
  duration :: Duration
  dotted :: bool
  lyric :: "string option"
  tied :: bool
  slurred :: bool

definition ParsedNote_pitch :: "string \<Rightarrow> ParsedNote" where
  \<comment> \<open>\<open>ParsedNote(pitch=p)\<close>: every other field has its default\<close>
  "ParsedNote_pitch p =
     \<lparr>pitch = p, duration = QUARTER, dotted = False, lyric = None, tied = False,
      slurred = False\<rparr>"

text \<open>
  \<open>ParsedElement\<close> is the union of the five dataclasses.  \<open>Rest\<close> carries
  \<open>duration, dotted\<close>; \<open>Chord\<close> carries \<open>notes, duration, dotted, lyric\<close>;
  \<open>Barline\<close> carries \<open>style\<close>; \<open>Command\<close> carries \<open>command, value\<close>.
\<close>

datatype ParsedElement =
    Note ParsedNote
  | Rest Duration bool
  | Chord "ParsedNote list" Duration bool "string option"
  | Barline string
  | Command string string

record CommandParseError =
  message :: string
  position :: nat
  line :: nat

record CommandParser =
  errors :: "CommandParseError list"


section \<open>The patterns of the command parser\<close>

definition PITCH_PATTERN :: "string \<Rightarrow> bool" where
  \<comment> \<open>\<open>^([A-Ga-g])([#b]{0,2})(\d)$\<close>\<close>
  "PITCH_PATTERN s =
     (case chomp s of
        [] \<Rightarrow> False
      | l # r \<Rightarrow> l \<in> set ''ABCDEFGabcdefg'' \<and> r \<noteq> [] \<and> isdigit (last r) \<and>
          length (butlast r) \<le> 2 \<and> list_all (\<lambda>a. a \<in> set ''#b'') (butlast r))"

definition duration_letters :: string where
  \<comment> \<open>the class \<open>[whqest]\<close>, ignoring case\<close>
  "duration_letters = ''whqestWHQEST''"

definition DURATION_PATTERN :: "string \<Rightarrow> (string \<times> string) option" where
  \<comment> \<open>\<open>^([whqest])(\.?)$\<close>, ignoring case; the result is groups 1 and 2\<close>
  "DURATION_PATTERN s =
     (case chomp s of
        [c] \<Rightarrow> if c \<in> set duration_letters then Some ([c], []) else None
      | [c, d] \<Rightarrow>
          if c \<in> set duration_letters \<and> d = CHR ''.'' then Some ([c], [d]) else None
      | _ \<Rightarrow> None)"

definition LYRIC_PATTERN :: "string \<Rightarrow> string option" where
  \<comment> \<open>\<open>"([^"]*)"\<close> matched at the start of the token; the result is group 1\<close>
  "LYRIC_PATTERN s =
     (case s of
        [] \<Rightarrow> None
      | q # r \<Rightarrow> if q = CHR 0x22 \<and> CHR 0x22 \<in> set r
                then Some (takeWhile (\<lambda>c. c \<noteq> CHR 0x22) r) else None)"

definition COMMAND_PATTERN :: "string \<Rightarrow> (string \<times> string) option" where
  \<comment> \<open>\<open>^(key|time|tempo|clef):\s*(.+)$\<close>, ignoring case; the result is groups 1 and 2\<close>
  "COMMAND_PATTERN s =
     (case find (\<lambda>k. lower (take (length k) s) = k \<and> startswith (drop (length k) s) '':'')
             [''key'', ''time'', ''tempo'', ''clef''] of
        None \<Rightarrow> None
      | Some k \<Rightarrow>
          (let r = chomp (drop (Suc (length k)) s);
               n = min (length (takeWhile isspace r)) (length r - 1);
               body = drop n r
           in if r = [] \<or> CHR 0x0A \<in> set body then None
              else Some (take (length k) s, body)))"

definition BARLINE_PATTERNS :: "(string \<times> string) list" where
  "BARLINE_PATTERNS =
     [(''|||'', ''final''), (''||'', ''double''), (''|'', ''single''), (''measure'', ''single'')]"


section \<open>The command parser\<close>

fun tokenize_loop :: "string list \<Rightarrow> string \<Rightarrow> bool \<Rightarrow> bool \<Rightarrow> string \<Rightarrow> string list" where
  "tokenize_loop tokens current in_quotes in_brackets [] =
     (if strip current \<noteq> [] then tokens @ [strip current] else tokens)"
| "tokenize_loop tokens current in_quotes in_brackets (char # rest) =
     (if char = CHR 0x22 then
        tokenize_loop tokens (current @ [char]) (\<not> in_quotes) in_brackets rest
      else if char = CHR ''['' then
        tokenize_loop (if strip current \<noteq> [] then tokens @ [strip current] else tokens)
          [char] in_quotes True rest
      else if char = CHR '']'' then
        tokenize_loop (tokens @ [strip (current @ [char])]) [] in_quotes False rest
      else if isspace char \<and> \<not> in_quotes \<and> \<not> in_brackets then
        tokenize_loop (if strip current \<noteq> [] then tokens @ [strip current] else tokens)
          [] in_quotes in_brackets rest
      else tokenize_loop tokens (current @ [char]) in_quotes in_brackets rest)"

definition tokenize :: "string \<Rightarrow> string list" where
  "tokenize l = tokenize_loop [] [] False False l"

definition is_pitch :: "string \<Rightarrow> bool" where
  "is_pitch token = PITCH_PATTERN token"

definition parse_duration_token :: "string \<Rightarrow> Duration option \<times> bool" where
  "parse_duration_token token =
     (case DURATION_PATTERN token of
        Some (g1, g2) \<Rightarrow> (from_code g1, g2 = ''.'')
      | None \<Rightarrow> (None, False))"

definition lookahead_duration ::
    "string list \<Rightarrow> nat \<Rightarrow> Duration \<times> bool \<times> nat" where
  \<comment> \<open>the block \<open>if consumed < len(tokens): ... if dur: ...\<close> shared by notes and chords\<close>
  "lookahead_duration tokens consumed =
     (if consumed < length tokens then
        (case parse_duration_token (tokens ! consumed) of
           (Some dur, dot) \<Rightarrow> (dur, dot, consumed + 1)
         | (None, dot) \<Rightarrow> (QUARTER, False, consumed))
      else (QUARTER, False, consumed))"

definition lookahead_lyric :: "string list \<Rightarrow> nat \<Rightarrow> string option \<times> nat" where
  \<comment> \<open>the block \<open>if consumed < len(tokens): lyric_match = ...\<close> shared by notes and chords\<close>
  "lookahead_lyric tokens consumed =
     (if consumed < length tokens then
        (case LYRIC_PATTERN (tokens ! consumed) of
           Some g1 \<Rightarrow> (Some g1, consumed + 1)
         | None \<Rightarrow> (None, consumed))
      else (None, consumed))"

definition parse_note :: "string list \<Rightarrow> ParsedNote option \<times> nat" where
  "parse_note tokens =
     (case tokens of
        [] \<Rightarrow> (None, 0)
      | p0 # _ \<Rightarrow>
          if \<not> is_pitch p0 then (None, 0)
          else
            (let is_tied = endswith p0 ''-'';
                 p = (if is_tied then butlast p0 else p0);
                 (dur, dot, consumed) = lookahead_duration tokens 1;
                 (lyr, consumed) = lookahead_lyric tokens consumed
             in (Some \<lparr>pitch = upper p, duration = dur, dotted = dot, lyric = lyr,
                       tied = is_tied, slurred = False\<rparr>, consumed)))"

fun absorb :: "string \<Rightarrow> string list \<Rightarrow> string" where
  \<comment> \<open>\<open>for i, t in enumerate(tokens[1:], 1): chord_token += " " + t; if t.endswith("]"): break\<close>\<close>
  "absorb chord_token [] = chord_token"
| "absorb chord_token (t # ts) =
     (if endswith t '']'' then chord_token @ '' '' @ t
      else absorb (chord_token @ '' '' @ t) ts)"

definition parse_chord :: "string list \<Rightarrow> ParsedElement option \<times> nat" where
  "parse_chord tokens =
     (case tokens of
        [] \<Rightarrow> (None, 0)
      | t0 # others \<Rightarrow>
          if \<not> startswith t0 ''['' then (None, 0)
          else
            (let chord_token = (if endswith t0 '']'' then t0 else absorb t0 others);
                 content = strip (butlast (tl chord_token));
                 pitch_strings = split_ws content;
                 ns = map (\<lambda>p. ParsedNote_pitch (upper p)) (filter is_pitch pitch_strings)
             in if ns = [] then (None, 0)
                else
                  (let (dur, dot, consumed) = lookahead_duration tokens 1;
                       (lyr, consumed) = lookahead_lyric tokens consumed
                   in (Some (Chord ns dur dot lyr), consumed))))"

lemma parse_chord_consumed:
  "parse_chord tokens = (Some c, n) \<Longrightarrow> 1 \<le> n"
  by (auto simp: parse_chord_def lookahead_duration_def lookahead_lyric_def Let_def
      split: list.splits if_splits option.splits prod.splits)

lemma parse_note_consumed:
  "parse_note tokens = (Some c, n) \<Longrightarrow> 1 \<le> n"
  by (auto simp: parse_note_def lookahead_duration_def lookahead_lyric_def Let_def
      split: list.splits if_splits option.splits prod.splits)

function parse_tokens :: "string list \<Rightarrow> ParsedElement list" where
  "parse_tokens [] = []"
| "parse_tokens (token # rest) =
     (if lower token = ''r'' then
        (case parse_duration_token (case rest of [] \<Rightarrow> ''q'' | d # _ \<Rightarrow> d) of
           (Some dur, dot) \<Rightarrow> Rest dur dot # parse_tokens (drop 2 (token # rest))
         | (None, dot) \<Rightarrow> Rest QUARTER False # parse_tokens rest)
      else
        (case (if startswith token ''['' then parse_chord (token # rest) else (None, 0)) of
           (Some chord, consumed) \<Rightarrow> chord # parse_tokens (drop consumed (token # rest))
         | (None, consumed) \<Rightarrow>
             (case map_of BARLINE_PATTERNS token of
                Some style \<Rightarrow> Barline style # parse_tokens rest
              | None \<Rightarrow>
                  (case (if is_pitch token then parse_note (token # rest) else (None, 0)) of
                     (Some n, consumed) \<Rightarrow> Note n # parse_tokens (drop consumed (token # rest))
                   | (None, consumed) \<Rightarrow> parse_tokens rest))))"
  by pat_completeness auto
termination
proof (relation "measure length", simp_all)
  fix token :: string and rest :: "string list" and y :: nat and x2 :: ParsedNote
  assume "(Some x2, y) = (if is_pitch token then parse_note (token # rest) else (None, 0))"
  then have "1 \<le> y"
    using parse_note_consumed [of "token # rest" x2 y] by (auto split: if_splits)
  then show "Suc (length rest) - y < Suc (length rest)" by simp
next
  fix token :: string and rest :: "string list" and y :: nat and x2 :: ParsedElement
  assume "(Some x2, y) = (if startswith token ''['' then parse_chord (token # rest) else (None, 0))"
  then have "1 \<le> y"
    using parse_chord_consumed [of "token # rest" x2 y] by (auto split: if_splits)
  then show "Suc (length rest) - y < Suc (length rest)" by simp
qed

definition parse_line :: "string \<Rightarrow> nat \<Rightarrow> CommandParseError + ParsedElement list" where
  \<comment> \<open>No statement of the body raises; every path returns the element list.\<close>
  "parse_line l line_num =
     (case COMMAND_PATTERN l of
        Some (g1, g2) \<Rightarrow> Inr [Command (lower g1) (strip g2)]
      | None \<Rightarrow>
          (case map_of BARLINE_PATTERNS l of
             Some style \<Rightarrow> Inr [Barline style]
           | None \<Rightarrow> Inr (parse_tokens (tokenize l))))"

fun parse_loop ::
    "nat \<Rightarrow> string list \<Rightarrow> ParsedElement list \<Rightarrow> CommandParseError list \<Rightarrow>
     ParsedElement list \<times> CommandParseError list" where
  "parse_loop line_num [] elements errs = (elements, errs)"
| "parse_loop line_num (l # ls) elements errs =
     (if strip l = [] \<or> startswith (strip l) ''#'' then
        parse_loop (line_num + 1) ls elements errs
      else
        (case parse_line (strip l) line_num of
           Inr line_elements \<Rightarrow> parse_loop (line_num + 1) ls (elements @ line_elements) errs
         | Inl e \<Rightarrow> parse_loop (line_num + 1) ls elements (errs @ [e\<lparr>line := line_num\<rparr>])))"

definition parse :: "CommandParser \<Rightarrow> string \<Rightarrow> ParsedElement list \<times> CommandParser" where
  "parse self text =
     (case parse_loop 1 (split_on CHR 0x0A (strip text)) [] [] of
        (elements, errs) \<Rightarrow> (elements, self\<lparr>errors := errs\<rparr>))"

definition validate :: "CommandParser \<Rightarrow> string \<Rightarrow> CommandParseError list \<times> CommandParser" where
  "validate self text =
     (case parse self text of (elements, self') \<Rightarrow> (errors self', self'))"


section \<open>The music21 objects the executor builds\<close>

text \<open>
  The executor builds objects of the music21 library.  An object is modelled by the
  arguments it was constructed from.  A quarter length is a \<open>rat\<close>: every length the
  executor computes from \<open>DURATION_MAP\<close> is a dyadic rational, which the source's floats
  hold exactly, and \<open>beats_per_measure\<close> is the exact quotient where the source rounds
  it to a float.

  \<^item> \<open>M21Note name quarterLength lyric tie\<close> is a \<open>note.Note\<close>; \<open>tie\<close> is the type of
    its tie, if it has one.
  \<^item> \<open>M21Rest quarterLength\<close> is a \<open>note.Rest\<close>.
  \<^item> \<open>M21Chord names quarterLength lyric\<close> is a \<open>chord.Chord\<close>.
  \<^item> \<open>M21Key tonic mode\<close> is a \<open>key.Key\<close>, built from one or from two arguments.
  \<^item> \<open>M21TimeSignature text beat\<close> is a \<open>meter.TimeSignature\<close>; \<open>beat\<close> is its
    \<open>beatCount\<close> and the quarter length of its \<open>beatDuration\<close>, or \<open>None\<close> when
    reading them raises \<open>TimeSignatureException\<close>, as for a meter whose beats are not
    all of one length.
  \<^item> \<open>M21MetronomeMark number\<close> is a \<open>tempo.MetronomeMark\<close>.
  \<^item> \<open>M21Clef name\<close> is an instance of the clef class \<open>CLEF_MAP\<close> gives for the name.
\<close>

datatype M21Object =
    M21Note string rat "string option" "string option"
  | M21Rest rat
  | M21Chord "string list" rat "string option"
  | M21Key string "string option"
  | M21TimeSignature string "(int \<times> rat) option"
  | M21MetronomeMark nat
  | M21Clef string

text \<open>
  The constructors of music21 that parse text are parameters of the model: whether
  \<open>pitch.Pitch\<close> and \<open>key.Key\<close> accept their arguments, whether
  \<open>tempo.MetronomeMark\<close> accepts a number, and what \<open>meter.TimeSignature\<close> makes of a
  string (\<open>None\<close> when the constructor raises).
\<close>

record music21 =
  Pitch :: "string \<Rightarrow> bool"
  Key1 :: "string \<Rightarrow> bool"
  Key2 :: "string \<Rightarrow> string \<Rightarrow> bool"
  TimeSignature :: "string \<Rightarrow> (int \<times> rat) option option"
  MetronomeMark :: "nat \<Rightarrow> bool"

datatype error =
    PitchException string
  | AttributeError
  | TimeSignatureException
  | ZeroDivisionError

definition expressions_Tie :: "string \<Rightarrow> error + string" where
  \<comment> \<open>\<open>expressions.Tie(type)\<close>: the module \<open>music21.expressions\<close> has no attribute
      \<open>Tie\<close> (the class is \<open>music21.tie.Tie\<close>), so the call raises\<close>
  "expressions_Tie type = Inl AttributeError"

fun quarterLength :: "M21Object \<Rightarrow> rat" where
  \<comment> \<open>\<open>obj.duration.quarterLength\<close>; a signature, a tempo mark and a clef have none\<close>
  "quarterLength (M21Note p ql lyr t) = ql"
| "quarterLength (M21Rest ql) = ql"
| "quarterLength (M21Chord ps ql lyr) = ql"
| "quarterLength (M21Key tonic mode) = 0"
| "quarterLength (M21TimeSignature v beat) = 0"
| "quarterLength (M21MetronomeMark n) = 0"
| "quarterLength (M21Clef c) = 0"

fun truthy :: "M21Object \<Rightarrow> bool" where
  \<comment> \<open>\<open>if m21_elem:\<close>; of these classes only the chord has a length, its number of pitches\<close>
  "truthy (M21Chord ps ql lyr) = (ps \<noteq> [])"
| "truthy obj = True"

fun is_NotRest :: "M21Object \<Rightarrow> bool" where
  \<comment> \<open>the class \<open>stream.notes\<close> selects: notes and chords, and no rests\<close>
  "is_NotRest (M21Note p ql lyr t) = True"
| "is_NotRest (M21Chord ps ql lyr) = True"
| "is_NotRest obj = False"

fun is_Clef :: "M21Object \<Rightarrow> bool" where
  "is_Clef (M21Clef c) = True"
| "is_Clef obj = False"

record Measure =
  number :: nat
  elems :: "(rat \<times> M21Object) list"
  rightBarline :: "string option"

definition new_Measure :: "nat \<Rightarrow> Measure" where
  \<comment> \<open>\<open>stream.Measure(number=n)\<close>\<close>
  "new_Measure n = \<lparr>number = n, elems = [], rightBarline = None\<rparr>"

definition highestTime :: "Measure \<Rightarrow> rat" where
  "highestTime m = foldr (\<lambda>(off, obj) t. max (off + quarterLength obj) t) (elems m) 0"

definition append_obj :: "Measure \<Rightarrow> M21Object \<Rightarrow> Measure" where
  \<comment> \<open>\<open>measure.append(obj)\<close>: the object is stored at the measure's highest time\<close>
  "append_obj m obj = m\<lparr>elems := elems m @ [(highestTime m, obj)]\<rparr>"

definition notes_of :: "Measure \<Rightarrow> M21Object list" where
  \<comment> \<open>\<open>measure.notes\<close>\<close>
  "notes_of m = filter is_NotRest (map snd (elems m))"

definition getElementsByClass_Clef :: "Measure \<Rightarrow> M21Object list" where
  \<comment> \<open>\<open>measure.getElementsByClass(clef.Clef)\<close>\<close>
  "getElementsByClass_Clef m = filter is_Clef (map snd (elems m))"

text \<open>
  The score wraps one part, \<open>Part 1\<close>, which holds a treble clef at offset 0 and then
  the measures appended to it; \<open>measures\<close> is that list of measures, in the order they
  were appended.  A measure is as long as its highest time, and \<open>part.append\<close> stores it
  at the highest time of the part.
\<close>

record Score =
  title :: string
  measures :: "Measure list"

definition part_highestTime :: "Measure list \<Rightarrow> rat" where
  \<comment> \<open>\<open>part.highestTime\<close> for a part that holds the clef and these measures\<close>
  "part_highestTime ms = foldl (\<lambda>t m. max t (t + highestTime m)) 0 ms"


section \<open>The command executor\<close>

record CommandExecutor =
  pending_tie :: "M21Object option"

definition DURATION_MAP :: "Duration \<Rightarrow> rat" where
  "DURATION_MAP d =
     (case d of WHOLE \<Rightarrow> 4 | HALF \<Rightarrow> 2 | QUARTER \<Rightarrow> 1
      | EIGHTH \<Rightarrow> 1 / 2 | SIXTEENTH \<Rightarrow> 1 / 4 | THIRTYSECOND \<Rightarrow> 1 / 8)"

definition CLEF_MAP :: "string list" where
  "CLEF_MAP = [''treble'', ''bass'', ''alto'', ''tenor'', ''soprano'']"

definition quarter_length :: "Duration \<Rightarrow> bool \<Rightarrow> rat" where
  \<comment> \<open>\<open>quarter_length = DURATION_MAP.get(duration, 1.0); if dotted: quarter_length *= 1.5\<close>\<close>
  "quarter_length d dot = (if dot then DURATION_MAP d * (3 / 2) else DURATION_MAP d)"

definition set_lyric :: "string option \<Rightarrow> string option" where
  \<comment> \<open>\<open>if parsed.lyric: obj.lyric = parsed.lyric\<close>: an empty lyric is not set\<close>
  "set_lyric lyr = (case lyr of None \<Rightarrow> None | Some l \<Rightarrow> if l = [] then None else Some l)"

definition create_note ::
    "music21 \<Rightarrow> CommandExecutor \<Rightarrow> ParsedNote \<Rightarrow> (error + M21Object) \<times> CommandExecutor" where
  \<comment> \<open>the result or the exception, and the executor as the call leaves it\<close>
  "create_note lib self parsed =
     (if \<not> Pitch lib (pitch parsed) then (Inl (PitchException (pitch parsed)), self)
      else
        (let ql = quarter_length (duration parsed) (dotted parsed);
             lyr = set_lyric (lyric parsed)
         in if tied parsed then
              (case expressions_Tie ''start'' of
                 Inl e \<Rightarrow> (Inl e, self)
               | Inr t \<Rightarrow>
                   (let n = M21Note (pitch parsed) ql lyr (Some t)
                    in (Inr n, self\<lparr>pending_tie := Some n\<rparr>)))
            else if pending_tie self \<noteq> None then
              (case expressions_Tie ''stop'' of
                 Inl e \<Rightarrow> (Inl e, self)
               | Inr t \<Rightarrow>
                   (Inr (M21Note (pitch parsed) ql lyr (Some t)), self\<lparr>pending_tie := None\<rparr>))
            else (Inr (M21Note (pitch parsed) ql lyr None), self)))"

definition create_rest :: "Duration \<Rightarrow> bool \<Rightarrow> M21Object" where
  "create_rest d dot = M21Rest (quarter_length d dot)"

definition create_chord ::
    "music21 \<Rightarrow> ParsedNote list \<Rightarrow> Duration \<Rightarrow> bool \<Rightarrow> string option \<Rightarrow> error + M21Object" where
  "create_chord lib ns d dot lyr =
     (case find (\<lambda>n. \<not> Pitch lib (pitch n)) ns of
        Some n \<Rightarrow> Inl (PitchException (pitch n))
      | None \<Rightarrow> Inr (M21Chord (map pitch ns) (quarter_length d dot) (set_lyric lyr)))"

fun create_music_element ::
    "music21 \<Rightarrow> CommandExecutor \<Rightarrow> ParsedElement \<Rightarrow>
     (error + M21Object option) \<times> CommandExecutor" where
  "create_music_element lib self (Note parsed) =
     (case create_note lib self parsed of
        (Inl e, self') \<Rightarrow> (Inl e, self')
      | (Inr n, self') \<Rightarrow> (Inr (Some n), self'))"
| "create_music_element lib self (Rest d dot) = (Inr (Some (create_rest d dot)), self)"
| "create_music_element lib self (Chord ns d dot lyr) =
     (case create_chord lib ns d dot lyr of
        Inl e \<Rightarrow> (Inl e, self)
      | Inr c \<Rightarrow> (Inr (Some c), self))"
| "create_music_element lib self other = (Inr None, self)"

definition parse_key_signature :: "music21 \<Rightarrow> string \<Rightarrow> M21Object option" where
  "parse_key_signature lib v0 =
     (let v = strip v0;
          parts = split_ws v;
          tonic0 = parts ! 0;
          tonic =
            (if length tonic0 > 1 then
               (if tonic0 ! 1 = CHR ''#'' then [tonic0 ! 0] @ ''#''
                else if lower [tonic0 ! 1] = ''b'' then [tonic0 ! 0] @ ''-''
                else if tonic0 ! 1 = CHR ''-'' then [tonic0 ! 0] @ ''-''
                else tonic0)
             else tonic0);
          mode0 = lower (parts ! 1);
          mode =
            (if mode0 \<in> set [''major'', ''maj'', ''m''] then ''major''
             else if mode0 \<in> set [''minor'', ''min''] then ''minor''
             else mode0)
      in if length parts \<ge> 2 \<and> Key2 lib tonic mode then Some (M21Key tonic (Some mode))
         else if Key1 lib v then Some (M21Key v None)
         else None)"

definition parse_time_signature :: "music21 \<Rightarrow> string \<Rightarrow> M21Object option" where
  "parse_time_signature lib v =
     (case TimeSignature lib v of
        Some beat \<Rightarrow> Some (M21TimeSignature v beat)
      | None \<Rightarrow> None)"

definition int_of_digits :: "string \<Rightarrow> nat" where
  \<comment> \<open>\<open>int(s)\<close> for a string of decimal digits\<close>
  "int_of_digits s = foldl (\<lambda>n c. 10 * n + (of_char c - 48)) 0 s"

definition parse_tempo :: "music21 \<Rightarrow> string \<Rightarrow> M21Object option" where
  \<comment> \<open>\<open>re.search(r'(\d+)', value)\<close> finds the first run of digits\<close>
  "parse_tempo lib v =
     (let found = takeWhile isdigit (dropWhile (\<lambda>c. \<not> isdigit c) v)
      in if found = [] then None
         else if MetronomeMark lib (int_of_digits found)
         then Some (M21MetronomeMark (int_of_digits found))
         else None)"

definition parse_clef :: "string \<Rightarrow> M21Object option" where
  "parse_clef v0 =
     (let v = strip (lower v0) in if v \<in> set CLEF_MAP then Some (M21Clef v) else None)"

definition create_command_element :: "music21 \<Rightarrow> string \<Rightarrow> string \<Rightarrow> M21Object option" where
  "create_command_element lib command val =
     (let cmd = lower command; v = strip val
      in if cmd = ''key'' then parse_key_signature lib v
         else if cmd = ''time'' then parse_time_signature lib v
         else if cmd = ''tempo'' then parse_tempo lib v
         else if cmd = ''clef'' then parse_clef v
         else None)"

text \<open>
  The local variables of the loop of \<open>create_score_from_elements\<close>.  The variable
  \<open>current_time_sig\<close> is written and never read, and is left out.
\<close>

record BuildState =
  part :: "Measure list"
  current_measure :: Measure
  measure_offset :: rat
  beats_per_measure :: rat

definition close_measure :: "BuildState \<Rightarrow> BuildState" where
  \<comment> \<open>\<open>part.append(current_measure); current_measure = stream.Measure(number + 1);
      measure_offset = 0.0\<close>\<close>
  "close_measure s =
     s\<lparr>part := part s @ [current_measure s],
       current_measure := new_Measure (number (current_measure s) + 1),
       measure_offset := 0\<rparr>"

definition set_rightBarline :: "string \<Rightarrow> Measure list \<Rightarrow> Measure list" where
  \<comment> \<open>\<open>rightBarline = bar.Barline(style)\<close> on the last measure\<close>
  "set_rightBarline style ms =
     (if ms = [] then ms else butlast ms @ [(last ms)\<lparr>rightBarline := Some style\<rparr>])"

definition barline :: "string \<Rightarrow> BuildState \<Rightarrow> BuildState" where
  \<comment> \<open>lines 99 to 108.  \<open>part[-1]\<close> is the last element of the part in the order of
      offsets: the measure just appended when it lies after offset 0, and the treble
      clef when it lies at offset 0, since there the clef sorts after the measures; then
      the barline is set on the clef and no measure has it.\<close>
  "barline style s =
     (let at_start = (part_highestTime (part s) = 0);
          s1 = close_measure s
      in if style = ''double'' then
           (if at_start then s1 else s1\<lparr>part := set_rightBarline ''double'' (part s1)\<rparr>)
         else if style = ''final'' then
           (if at_start then s1 else s1\<lparr>part := set_rightBarline ''final'' (part s1)\<rparr>)
         else s1)"

definition place :: "BuildState \<Rightarrow> M21Object \<Rightarrow> BuildState" where
  \<comment> \<open>lines 114 to 123: the placement of a note, a rest or a chord\<close>
  "place s obj =
     (let elem_duration = quarterLength obj;
          s1 = (if measure_offset s + elem_duration > beats_per_measure s
                then close_measure s else s)
      in s1\<lparr>current_measure := append_obj (current_measure s1) obj,
            measure_offset := measure_offset s1 + elem_duration\<rparr>)"

fun step ::
    "music21 \<Rightarrow> CommandExecutor \<Rightarrow> BuildState \<Rightarrow> ParsedElement \<Rightarrow>
     (error + BuildState) \<times> CommandExecutor" where
  "step lib self s (Command command val) =
     (case create_command_element lib command val of
        None \<Rightarrow> (Inr s, self)
      | Some (M21TimeSignature v beat) \<Rightarrow>
          (case beat of
             None \<Rightarrow> (Inl TimeSignatureException, self)
           | Some (bc, bd) \<Rightarrow>
               if bd = 0 then (Inl ZeroDivisionError, self)
               else (Inr (s\<lparr>beats_per_measure := of_int bc * (4 / bd),
                            current_measure :=
                              append_obj (current_measure s) (M21TimeSignature v beat)\<rparr>),
                     self))
      | Some obj \<Rightarrow> (Inr (s\<lparr>current_measure := append_obj (current_measure s) obj\<rparr>), self))"
| "step lib self s (Barline style) = (Inr (barline style s), self)"
| "step lib self s elem =
     (case create_music_element lib self elem of
        (Inl e, self') \<Rightarrow> (Inl e, self')
      | (Inr None, self') \<Rightarrow> (Inr s, self')
      | (Inr (Some obj), self') \<Rightarrow>
          if truthy obj then (Inr (place s obj), self') else (Inr s, self'))"

fun build_loop ::
    "music21 \<Rightarrow> CommandExecutor \<Rightarrow> BuildState \<Rightarrow> ParsedElement list \<Rightarrow>
     (error + BuildState) \<times> CommandExecutor" where
  "build_loop lib self s [] = (Inr s, self)"
| "build_loop lib self s (elem # rest) =
     (case step lib self s elem of
        (Inl e, self') \<Rightarrow> (Inl e, self')
      | (Inr s', self') \<Rightarrow> build_loop lib self' s' rest)"

definition initial_state :: BuildState where
  "initial_state =
     \<lparr>part = [], current_measure = new_Measure 1, measure_offset = 0,
      beats_per_measure = 4\<rparr>"

definition finish :: "BuildState \<Rightarrow> Measure list" where
  \<comment> \<open>lines 125 to 127: \<open>if current_measure.notes or
      current_measure.getElementsByClass(clef.Clef): part.append(current_measure)\<close>\<close>
  "finish s =
     (if notes_of (current_measure s) \<noteq> [] \<or> getElementsByClass_Clef (current_measure s) \<noteq> []
      then part s @ [current_measure s] else part s)"

definition create_score_from_elements ::
    "music21 \<Rightarrow> CommandExecutor \<Rightarrow> ParsedElement list \<Rightarrow> string \<Rightarrow>
     (error + Score) \<times> CommandExecutor" where
  \<comment> \<open>the score or the exception, and the executor as the call leaves it\<close>
  "create_score_from_elements lib self elements ttl =
     (case build_loop lib self initial_state elements of
        (Inl e, self') \<Rightarrow> (Inl e, self')
      | (Inr s, self') \<Rightarrow> (Inr \<lparr>title = ttl, measures = finish s\<rparr>, self'))"

definition new_CommandExecutor :: CommandExecutor where
  \<comment> \<open>\<open>CommandExecutor()\<close>\<close>
  "new_CommandExecutor = \<lparr>pending_tie = None\<rparr>"

definition execute_commands :: "music21 \<Rightarrow> ParsedElement list \<Rightarrow> string \<Rightarrow> error + Score" where
  "execute_commands lib elements ttl =
     fst (create_score_from_elements lib new_CommandExecutor elements ttl)"


section \<open>A fragment of music21 for the examples\<close>

text \<open>
  The examples are evaluated with a fragment of the library: seven pitches, the key of
  G major, the signatures \<open>4/4\<close> and \<open>3/4\<close> (four and three beats of one quarter
  length each) and every positive tempo.
\<close>

definition sample_music21 :: music21 where
  "sample_music21 =
     \<lparr>Pitch = (\<lambda>p. p \<in> set [''C4'', ''D4'', ''E4'', ''F4'', ''G4'', ''A4'', ''B4'']),
      Key1 = (\<lambda>v. False),
      Key2 = (\<lambda>tonic mode. tonic = ''G'' \<and> mode = ''major''),
      TimeSignature =
        (\<lambda>v. if v = ''4/4'' then Some (Some (4, 1))
             else if v = ''3/4'' then Some (Some (3, 1)) else None),
      MetronomeMark = (\<lambda>n. 0 < n)\<rparr>"


section \<open>Observations on the parser and on the builder\<close>

text \<open>
  The lines \<open>parse\<close> hands to the line parser: the stripped lines of the stripped text
  that are neither empty nor comments, each with its number, counted from 1 over all
  lines; and what one such line adds to the elements and to the errors.
\<close>

definition numbered_lines :: "string \<Rightarrow> (nat \<times> string) list" where
  "numbered_lines text =
     filter (\<lambda>(n, l). l \<noteq> [] \<and> \<not> startswith l ''#'')
       (enumerate 1 (map strip (split_on CHR 0x0A (strip text))))"

definition line_elements :: "nat \<times> string \<Rightarrow> ParsedElement list" where
  "line_elements nl = (case parse_line (snd nl) (fst nl) of Inr es \<Rightarrow> es | Inl e \<Rightarrow> [])"

definition line_errors :: "nat \<times> string \<Rightarrow> CommandParseError list" where
  "line_errors nl =
     (case parse_line (snd nl) (fst nl) of Inr es \<Rightarrow> [] | Inl e \<Rightarrow> [e\<lparr>line := fst nl\<rparr>])"

text \<open>
  The events of a measure are its notes, rests and chords; signatures, tempo marks and
  clefs are not events.
\<close>

fun is_event :: "M21Object \<Rightarrow> bool" where
  "is_event (M21Note p ql lyr t) = True"
| "is_event (M21Rest ql) = True"
| "is_event (M21Chord ps ql lyr) = True"
| "is_event obj = False"

definition events :: "Measure \<Rightarrow> M21Object list" where
  "events m = filter is_event (map snd (elems m))"

definition events_length :: "Measure \<Rightarrow> rat" where
  "events_length m = sum_list (map quarterLength (events m))"


text \<open>The measure that \<open>time: 4/4\<close> and five quarter notes are built into.\<close>

definition overfull_measure :: Measure where
  "overfull_measure =
     \<lparr>number = 1,
      elems = [(0, M21TimeSignature ''4/4'' (Some (4, 1))), (0, M21Note ''C4'' 1 None None),
               (1, M21Note ''D4'' 1 None None), (2, M21Note ''E4'' 1 None None),
               (3, M21Note ''F4'' 1 None None), (4, M21Note ''G4'' 1 None None)],
      rightBarline = None\<rparr>"


section \<open>The parser: results and diagnostics\<close>

lemma parse_loop_eq:
  "parse_loop n ls els errs =
     (els @ concat (map line_elements
        (filter (\<lambda>(n, l). l \<noteq> [] \<and> \<not> startswith l ''#'') (enumerate n (map strip ls)))),
      errs @ concat (map line_errors
        (filter (\<lambda>(n, l). l \<noteq> [] \<and> \<not> startswith l ''#'') (enumerate n (map strip ls)))))"
proof (induction ls arbitrary: n els errs)
  case Nil
  show ?case by simp
next
  case (Cons l ls)
  show ?case
  proof (cases "strip l = [] \<or> startswith (strip l) ''#''")
    case True
    then show ?thesis using Cons.IH [of "Suc n" els errs] by auto
  next
    case False
    show ?thesis
    proof (cases "parse_line (strip l) n")
      case (Inl e)
      with False show ?thesis
        using Cons.IH [of "Suc n" els "errs @ [e\<lparr>line := n\<rparr>]"]
        by (simp add: line_elements_def line_errors_def)
    next
      case (Inr es)
      with False show ?thesis
        using Cons.IH [of "Suc n" "els @ es" errs]
        by (simp add: line_elements_def line_errors_def)
    qed
  qed
qed

lemma parse_line_returns: "\<exists>es. parse_line l n = Inr es"
  by (simp add: parse_line_def split: option.split prod.split)

lemma line_errors_empty: "line_errors nl = []"
  using parse_line_returns [of "snd nl" "fst nl"] by (auto simp: line_errors_def)

text \<open>
  Claim C2.  For every text, \<open>parse\<close> returns (it is a total function, and no path of
  it raises): its elements are the elements of all parsed lines, in order, and the
  errors it leaves in the parser are the errors of all lines, in order, each with its
  line number.  \<open>validate\<close> runs \<open>parse\<close> and returns the errors \<open>parse\<close> left, which
  are the same from whatever state the parser was in before.
\<close>

theorem parse_total:
  "parse self text =
     (concat (map line_elements (numbered_lines text)),
      self\<lparr>errors := concat (map line_errors (numbered_lines text))\<rparr>) \<and>
   validate self text = (errors (snd (parse self text)), snd (parse self text)) \<and>
   fst (validate self text) = errors (snd (parse self' text))"
  by (simp add: parse_def validate_def numbered_lines_def parse_loop_eq)

text \<open>
  Claim C9.  For every text, \<open>validate\<close> returns the empty list: the line parser has no
  path that raises \<open>CommandParseError\<close>, the only exception \<open>parse\<close> records.
\<close>

theorem validate_empty: "fst (validate self text) = []"
  by (simp add: parse_def validate_def parse_loop_eq line_errors_empty)


section \<open>The parser: rests\<close>

text \<open>
  Claim C6 fails on the code.  The line parser compares the lower-cased token with \<open>r\<close>
  only, so the word \<open>rest\<close>, in any case, is skipped as an unknown token and no rest is
  emitted, with or without a duration after it.
\<close>

theorem rest_word_skipped:
  "lower ''rest'' = ''rest'' \<and> parse_tokens [''rest''] = [] \<and>
   parse_line ''rest h'' 1 = Inr [] \<and> parse_line ''REST'' 1 = Inr []"
  by code_simp


section \<open>The parser: the tie suffix\<close>

lemma endswith_single: "endswith s [c] \<longleftrightarrow> s \<noteq> [] \<and> last s = c"
proof (cases s rule: rev_cases)
  case Nil
  then show ?thesis by (simp add: endswith_def)
next
  case (snoc ys y)
  then show ?thesis by (auto simp: endswith_def)
qed


lemma pitch_no_tie_suffix: "PITCH_PATTERN s \<Longrightarrow> \<not> endswith s ''-''"
proof (cases "endswith s [CHR 0x0A]")
  case True
  then show ?thesis by (auto simp: endswith_single)
next
  case False
  assume "PITCH_PATTERN s"
  with False obtain l r where s: "s = l # r" and r: "r \<noteq> []" and d: "isdigit (last r)"
    by (auto simp: PITCH_PATTERN_def chomp_def split: list.splits)
  from d have "last r \<noteq> CHR ''-''" by (auto simp: isdigit_def)
  with s r show ?thesis by (simp add: endswith_single)
qed

lemma dash_not_pitch: "\<not> is_pitch (p @ ''-'')"
proof -
  have "\<not> endswith (p @ ''-'') [CHR 0x0A]" by (simp add: endswith_single)
  then have "chomp (p @ ''-'') = p @ ''-''" by (simp add: chomp_def)
  then show ?thesis
    by (cases p) (auto simp: is_pitch_def PITCH_PATTERN_def isdigit_def)
qed

lemma pitch_first_letter:
  assumes "is_pitch p"
  shows "\<exists>l r. p = l # r \<and> r \<noteq> [] \<and> l \<in> set ''ABCDEFGabcdefg''"
proof (cases "endswith p [CHR 0x0A]")
  case False
  with assms show ?thesis
    by (auto simp: is_pitch_def PITCH_PATTERN_def chomp_def split: list.splits)
next
  case True
  then obtain q where p: "p = q @ [CHR 0x0A]"
    by (cases p rule: rev_cases) (auto simp: endswith_single)
  with assms True obtain l r where "q = l # r" and "l \<in> set ''ABCDEFGabcdefg''"
    by (auto simp: is_pitch_def PITCH_PATTERN_def chomp_def split: list.splits)
  with p show ?thesis by auto
qed

text \<open>
  Claim C3 fails on the code.  A pitch followed by \<open>-\<close> does not match the pitch
  pattern, which admits nothing after the octave digit; the line parser tests the
  pattern before \<open>parse_note\<close> looks for the suffix, so the token is skipped as unknown
  and no note is emitted.
\<close>

theorem tie_suffix_token_skipped:
  "is_pitch p \<Longrightarrow>
   \<not> is_pitch (p @ ''-'') \<and> parse_tokens ((p @ ''-'') # rest) = parse_tokens rest"
proof -
  assume "is_pitch p"
  from pitch_first_letter [OF this] obtain l r
    where p: "p = l # r" and r: "r \<noteq> []" and l: "l \<in> set ''ABCDEFGabcdefg''" by blast
  have 1: "lower (p @ ''-'') \<noteq> ''r''"
    using p r by (cases r) (auto simp: lower_def)
  have 2: "\<not> startswith (p @ ''-'') ''[''"
    using p l by (auto simp: startswith_def)
  have 3: "map_of BARLINE_PATTERNS (p @ ''-'') = None"
    using p l by (auto simp: BARLINE_PATTERNS_def)
  from 1 2 3 dash_not_pitch [of p] show ?thesis by simp
qed

theorem tie_suffix_token_witness:
  "is_pitch ''C4'' \<and> \<not> is_pitch ''C4-'' \<and> parse_tokens [''C4-'', ''q''] = [] \<and>
   parse_line ''C4- q'' 1 = Inr []"
proof -
  have a: "is_pitch ''C4''" by code_simp
  have b: "parse_tokens [''q''] = []" by code_simp
  have c: "parse_line ''C4- q'' 1 = Inr []" by code_simp
  from tie_suffix_token_skipped [OF a, of "[''q'']"] a b c show ?thesis by simp
qed


section \<open>The parser: a chord bracket that is not closed\<close>

lemma strip_Cons_nonspace:
  "\<not> isspace c \<Longrightarrow> strip (c # s) = c # rev (dropWhile isspace (rev s))"
  by (simp add: strip_def dropWhile_append3)

lemma set_strip: "set (strip s) \<subseteq> set s"
proof -
  have "set (strip s) \<subseteq> set (dropWhile isspace s)"
    unfolding strip_def using set_dropWhileD [of _ isspace "rev (dropWhile isspace s)"] by auto
  also have "\<dots> \<subseteq> set s" using set_dropWhileD [of _ isspace s] by auto
  finally show ?thesis .
qed

lemma bracket_not_space: "\<not> isspace CHR ''[''"
  by (simp add: isspace_def)

lemma tokenize_loop_in_brackets:
  "CHR ''['' \<notin> set rest \<Longrightarrow> CHR '']'' \<notin> set rest \<Longrightarrow>
   tokenize_loop tokens current q True rest =
     (if strip (current @ rest) \<noteq> [] then tokens @ [strip (current @ rest)] else tokens)"
  by (induction rest arbitrary: current q) auto

lemma tokenize_loop_open_bracket:
  "CHR ''['' \<notin> set rest \<Longrightarrow> CHR '']'' \<notin> set rest \<Longrightarrow>
   tokenize_loop tokens current q b (pre @ CHR ''['' # rest) =
     tokenize_loop tokens current q b pre @ [strip (CHR ''['' # rest)]"
proof (induction pre arbitrary: tokens current q b)
  case Nil
  have "strip (CHR ''['' # rest) \<noteq> []"
    by (simp add: strip_Cons_nonspace bracket_not_space)
  with Nil show ?case by (simp add: tokenize_loop_in_brackets)
next
  case (Cons c pre)
  then show ?case by simp
qed

text \<open>
  Claim C10.  When a line opens a bracket and no bracket follows it, the tokenizer
  keeps everything from the bracket to the end of the line as one token.  Chord parsing
  takes the token without its first and its last character as the content, so the last
  character of the line is lost: \<open>[C4 E4\<close> parses to one chord whose only note is C4.
\<close>

theorem unclosed_chord_bracket:
  "CHR ''['' \<notin> set rest \<Longrightarrow> CHR '']'' \<notin> set rest \<Longrightarrow>
   tokenize (pre @ ''['' @ rest) = tokenize pre @ [strip (''['' @ rest)] \<and>
   parse_chord [strip (''['' @ rest)] =
     (if filter is_pitch (split_ws (strip (butlast (tl (strip (''['' @ rest)))))) = []
      then (None, 0)
      else (Some (Chord
              (map (\<lambda>p. ParsedNote_pitch (upper p))
                 (filter is_pitch (split_ws (strip (butlast (tl (strip (''['' @ rest))))))))
              QUARTER False None), 1)) \<and>
   fst (parse self ''[C4 E4'') = [Chord [ParsedNote_pitch ''C4''] QUARTER False None]"
proof (intro conjI)
  assume a: "CHR ''['' \<notin> set rest" and b: "CHR '']'' \<notin> set rest"
  show "tokenize (pre @ ''['' @ rest) = tokenize pre @ [strip (''['' @ rest)]"
    using tokenize_loop_open_bracket [OF a b] by (simp add: tokenize_def)
  define tok where "tok = strip (''['' @ rest)"
  have tok: "tok = CHR ''['' # rev (dropWhile isspace (rev rest))"
    by (simp add: tok_def strip_Cons_nonspace bracket_not_space)
  have "set tok \<subseteq> set (''['' @ rest)" unfolding tok_def by (rule set_strip)
  with b have "CHR '']'' \<notin> set tok" by auto
  moreover have "tok \<noteq> []" using tok by simp
  ultimately have "last tok \<noteq> CHR '']''" using last_in_set [of tok] by metis
  then have no_end: "\<not> endswith tok '']''" by (simp add: endswith_single)
  have start: "startswith tok ''[''" using tok by (simp add: startswith_def)
  from no_end start
  show "parse_chord [strip (''['' @ rest)] =
     (if filter is_pitch (split_ws (strip (butlast (tl (strip (''['' @ rest)))))) = []
      then (None, 0)
      else (Some (Chord
              (map (\<lambda>p. ParsedNote_pitch (upper p))
                 (filter is_pitch (split_ws (strip (butlast (tl (strip (''['' @ rest))))))))
              QUARTER False None), 1))"
    unfolding tok_def [symmetric]
    by (simp add: parse_chord_def lookahead_duration_def lookahead_lyric_def Let_def)
next
  have "parse \<lparr>errors = []\<rparr> ''[C4 E4'' =
      ([Chord [ParsedNote_pitch ''C4''] QUARTER False None], \<lparr>errors = []\<rparr>)"
    by code_simp
  then show "fst (parse self ''[C4 E4'') = [Chord [ParsedNote_pitch ''C4''] QUARTER False None]"
    by (simp add: parse_def split: prod.splits)
qed

theorem unclosed_chord_bracket_witness:
  "CHR ''['' \<notin> set ''C4 E4'' \<and> CHR '']'' \<notin> set ''C4 E4'' \<and>
   tokenize ''r q [C4 E4'' = [''r'', ''q'', ''[C4 E4''] \<and>
   parse_chord [''[C4 E4''] = (Some (Chord [ParsedNote_pitch ''C4''] QUARTER False None), 1) \<and>
   fst (parse \<lparr>errors = []\<rparr> ''[C4 E4'') = [Chord [ParsedNote_pitch ''C4''] QUARTER False None]"
proof -
  have a: "CHR ''['' \<notin> set ''C4 E4''" by simp
  have b: "CHR '']'' \<notin> set ''C4 E4''" by simp
  have c: "tokenize ''r q '' = [''r'', ''q'']" by code_simp
  have d: "strip (''['' @ ''C4 E4'') = ''[C4 E4''" by code_simp
  have e: "filter is_pitch (split_ws (strip (butlast (tl ''[C4 E4'')))) = [''C4'']" by code_simp
  have f: "upper ''C4'' = ''C4''" by code_simp
  from unclosed_chord_bracket [OF a b, of "''r q ''" "\<lparr>errors = []\<rparr>"] a b c d e f
  show ?thesis by simp
qed


section \<open>Structural build: the capacity of a measure\<close>

text \<open>
  Claim C1 fails on the code.  After a time command the loop takes
  \<open>beatCount * (4.0 / beatDuration.quarterLength)\<close> for the beats of a measure, which is
  16 for \<open>4/4\<close>, a signature of 4 beats.  Five quarter notes after \<open>time: 4/4\<close> are
  all placed in measure 1, whose events are 5 beats long together, and no second measure
  is opened.
\<close>

theorem time_signature_overfills_measure:
  "create_score_from_elements sample_music21 new_CommandExecutor
     [Command ''time'' ''4/4'', Note (ParsedNote_pitch ''C4''), Note (ParsedNote_pitch ''D4''),
      Note (ParsedNote_pitch ''E4''), Note (ParsedNote_pitch ''F4''),
      Note (ParsedNote_pitch ''G4'')] ''Untitled'' =
     (Inr \<lparr>title = ''Untitled'', measures = [overfull_measure]\<rparr>, new_CommandExecutor) \<and>
   events_length overfull_measure = 5"
  by code_simp


section \<open>Structural build: five quarter notes\<close>

text \<open>
  Claim C8.  Five quarter notes that are neither dotted nor tied, built by an executor
  without a pending tie under the default four beats per measure, give exactly two
  measures: measure 1 holds the first four notes at the offsets 0, 1, 2 and 3, measure 2
  holds the fifth note at offset 0, and no third measure is emitted.  This holds for all
  pitches the library accepts and for all lyrics.
\<close>

theorem five_quarter_notes_two_measures:
  "Pitch lib p1 \<Longrightarrow> Pitch lib p2 \<Longrightarrow> Pitch lib p3 \<Longrightarrow> Pitch lib p4 \<Longrightarrow> Pitch lib p5 \<Longrightarrow>
   pending_tie self = None \<Longrightarrow>
   create_score_from_elements lib self
     [Note \<lparr>pitch = p1, duration = QUARTER, dotted = False, lyric = l1, tied = False,
            slurred = s1\<rparr>,
      Note \<lparr>pitch = p2, duration = QUARTER, dotted = False, lyric = l2, tied = False,
            slurred = s2\<rparr>,
      Note \<lparr>pitch = p3, duration = QUARTER, dotted = False, lyric = l3, tied = False,
            slurred = s3\<rparr>,
      Note \<lparr>pitch = p4, duration = QUARTER, dotted = False, lyric = l4, tied = False,
            slurred = s4\<rparr>,
      Note \<lparr>pitch = p5, duration = QUARTER, dotted = False, lyric = l5, tied = False,
            slurred = s5\<rparr>] ttl =
     (Inr \<lparr>title = ttl,
           measures =
             [\<lparr>number = 1,
               elems = [(0, M21Note p1 1 (set_lyric l1) None),
                        (1, M21Note p2 1 (set_lyric l2) None),
                        (2, M21Note p3 1 (set_lyric l3) None),
                        (3, M21Note p4 1 (set_lyric l4) None)],
               rightBarline = None\<rparr>,
              \<lparr>number = 2, elems = [(0, M21Note p5 1 (set_lyric l5) None)],
                rightBarline = None\<rparr>]\<rparr>,
      self)"
  by (simp add: create_score_from_elements_def initial_state_def create_note_def
       quarter_length_def DURATION_MAP_def place_def close_measure_def append_obj_def
       highestTime_def new_Measure_def finish_def notes_of_def Let_def)

theorem five_quarter_notes_witness:
  "Pitch sample_music21 ''C4'' \<and> Pitch sample_music21 ''D4'' \<and> Pitch sample_music21 ''E4'' \<and>
   Pitch sample_music21 ''F4'' \<and> Pitch sample_music21 ''G4'' \<and>
   pending_tie new_CommandExecutor = None \<and>
   create_score_from_elements sample_music21 new_CommandExecutor
     [Note (ParsedNote_pitch ''C4''), Note (ParsedNote_pitch ''D4''),
      Note (ParsedNote_pitch ''E4''), Note (ParsedNote_pitch ''F4''),
      Note (ParsedNote_pitch ''G4'')] ''Untitled'' =
     (Inr \<lparr>title = ''Untitled'',
           measures =
             [\<lparr>number = 1,
               elems = [(0, M21Note ''C4'' 1 None None), (1, M21Note ''D4'' 1 None None),
                        (2, M21Note ''E4'' 1 None None), (3, M21Note ''F4'' 1 None None)],
               rightBarline = None\<rparr>,
              \<lparr>number = 2, elems = [(0, M21Note ''G4'' 1 None None)],
                rightBarline = None\<rparr>]\<rparr>,
      new_CommandExecutor)"
  using five_quarter_notes_two_measures [of sample_music21 "''C4''" "''D4''" "''E4''" "''F4''"
      "''G4''" new_CommandExecutor None False None False None False None False None False
      "''Untitled''"]
  by (simp add: sample_music21_def ParsedNote_pitch_def set_lyric_def new_CommandExecutor_def)


section \<open>Structural build: ties\<close>

text \<open>
  Claim C4 fails on the code.  To mark a tie the executor calls \<open>expressions.Tie\<close>,
  which the library does not have, so building a tied note raises \<open>AttributeError\<close>
  before the note is marked or recorded as pending: a sequence that begins with a tied
  note gives no score, and the executor is left as it was.
\<close>

theorem tied_note_raises:
  "Pitch lib (pitch a) \<Longrightarrow> tied a \<Longrightarrow>
   create_score_from_elements lib self (Note a # rest) ttl = (Inl AttributeError, self)"
  by (simp add: create_score_from_elements_def create_note_def expressions_Tie_def Let_def)

theorem tied_note_raises_witness:
  "Pitch sample_music21 ''C4'' \<and>
   tied \<lparr>pitch = ''C4'', duration = QUARTER, dotted = False, lyric = None, tied = True,
          slurred = False\<rparr> \<and>
   create_score_from_elements sample_music21 new_CommandExecutor
     [Note \<lparr>pitch = ''C4'', duration = QUARTER, dotted = False, lyric = None, tied = True,
            slurred = False\<rparr>,
      Note (ParsedNote_pitch ''D4''), Note (ParsedNote_pitch ''E4'')] ''Untitled'' =
     (Inl AttributeError, new_CommandExecutor)"
  using tied_note_raises [of sample_music21
      "\<lparr>pitch = ''C4'', duration = QUARTER, dotted = False, lyric = None, tied = True,
        slurred = False\<rparr>"
      new_CommandExecutor "[Note (ParsedNote_pitch ''D4''), Note (ParsedNote_pitch ''E4'')]"
      "''Untitled''"]
  by (simp add: sample_music21_def)


section \<open>Structural build: the state of the executor between two builds\<close>

lemma create_note_executor: "snd (create_note lib self parsed) = self"
  by (simp add: create_note_def expressions_Tie_def Let_def)

lemma create_music_element_executor: "snd (create_music_element lib self elem) = self"
proof (cases elem)
  case (Note parsed)
  with create_note_executor [of lib self parsed] show ?thesis
    by (cases "create_note lib self parsed") (auto split: sum.splits)
next
  case (Chord ns d dot lyr)
  then show ?thesis by (simp split: sum.splits)
qed simp_all

lemma step_executor: "snd (step lib self s elem) = self"
proof (cases elem)
  case (Command command val)
  then show ?thesis
    by (simp split: option.splits M21Object.splits prod.splits)
next
  case (Barline style)
  then show ?thesis by simp
next
  case (Note parsed)
  with create_music_element_executor [of lib self elem] show ?thesis
    by (cases "create_music_element lib self elem")
       (auto split: sum.splits option.splits)
next
  case (Rest d dot)
  with create_music_element_executor [of lib self elem] show ?thesis
    by (cases "create_music_element lib self elem")
       (auto split: sum.splits option.splits)
next
  case (Chord ns d dot lyr)
  with create_music_element_executor [of lib self elem] show ?thesis
    by (cases "create_music_element lib self elem")
       (auto split: sum.splits option.splits)
qed

lemma build_loop_executor: "snd (build_loop lib self s elements) = self"
proof (induction elements arbitrary: s)
  case Nil
  show ?case by simp
next
  case (Cons elem rest)
  obtain r self' where st: "step lib self s elem = (r, self')"
    by (cases "step lib self s elem")
  with step_executor [of lib self s elem] have "self' = self" by simp
  with st Cons.IH show ?case by (cases r) simp_all
qed

lemma create_score_executor: "snd (create_score_from_elements lib self elements ttl) = self"
proof -
  obtain r self' where b: "build_loop lib self initial_state elements = (r, self')"
    by (cases "build_loop lib self initial_state elements")
  with build_loop_executor [of lib self initial_state elements] have "self' = self" by simp
  with b show ?thesis by (cases r) (simp_all add: create_score_from_elements_def)
qed

text \<open>
  Claim C5.  A build, whether it returns a score or raises, leaves the executor as it
  found it: both assignments to the pending tie stand behind a call that raises.  So a
  build of a second sequence gives the same score, or raises the same exception, whether
  or not a build of a first sequence ran before it on the same executor.  A build that
  ends with a tied note raises and leaves no pending tie.
\<close>

theorem build_leaves_executor_unchanged:
  "snd (create_score_from_elements lib self first ttl1) = self \<and>
   fst (create_score_from_elements lib
          (snd (create_score_from_elements lib self first ttl1)) second ttl2) =
     fst (create_score_from_elements lib self second ttl2) \<and>
   create_score_from_elements sample_music21 new_CommandExecutor
     [Note \<lparr>pitch = ''C4'', duration = QUARTER, dotted = False, lyric = None, tied = True,
            slurred = False\<rparr>] ttl1 =
     (Inl AttributeError, new_CommandExecutor)"
proof (intro conjI)
  show "snd (create_score_from_elements lib self first ttl1) = self"
    by (rule create_score_executor)
  then show "fst (create_score_from_elements lib
          (snd (create_score_from_elements lib self first ttl1)) second ttl2) =
     fst (create_score_from_elements lib self second ttl2)"
    by simp
  show "create_score_from_elements sample_music21 new_CommandExecutor
     [Note \<lparr>pitch = ''C4'', duration = QUARTER, dotted = False, lyric = None, tied = True,
            slurred = False\<rparr>] ttl1 =
     (Inl AttributeError, new_CommandExecutor)"
    by (simp add: create_score_from_elements_def create_note_def expressions_Tie_def Let_def
        sample_music21_def)
qed


section \<open>Structural build: the last measure\<close>

text \<open>
  Claim C7 fails on the code.  At the end of the input the current measure is appended
  only when it holds a note, a chord or a clef.  A measure that holds only rests, or
  only a key, a time signature and a tempo mark, is dropped with its content, although a
  barline would have appended the same measure.
\<close>

theorem last_measure_dropped:
  "create_score_from_elements sample_music21 new_CommandExecutor [Rest QUARTER False] ''t'' =
     (Inr \<lparr>title = ''t'', measures = []\<rparr>, new_CommandExecutor) \<and>
   create_score_from_elements sample_music21 new_CommandExecutor
     [Command ''key'' ''G major'', Command ''time'' ''3/4'', Command ''tempo'' ''120'']
     ''t'' =
     (Inr \<lparr>title = ''t'', measures = []\<rparr>, new_CommandExecutor) \<and>
   create_score_from_elements sample_music21 new_CommandExecutor
     [Rest QUARTER False, Barline ''single''] ''t'' =
     (Inr \<lparr>title = ''t'',
           measures = [\<lparr>number = 1, elems = [(0, M21Rest 1)], rightBarline = None\<rparr>]\<rparr>,
      new_CommandExecutor) \<and>
   create_score_from_elements sample_music21 new_CommandExecutor
     [Command ''clef'' ''bass''] ''t'' =
     (Inr \<lparr>title = ''t'',
           measures = [\<lparr>number = 1, elems = [(0, M21Clef ''bass'')], rightBarline = None\<rparr>]\<rparr>,
      new_CommandExecutor)"
  by code_simp

end
